theory Spec2Isabelle
  imports Main
begin

section \<open>Strings of the source\<close>

text \<open>
  The source files are UTF-8 text. A JavaScript string is modelled as the list of bytes of
  its UTF-8 encoding (\<open>string\<close>); on well-formed strings, equality of the encodings is the
  \<open>===\<close> of the source. The Korean status literals are written out byte by byte; the
  constant names are romanisations of the literals.
\<close>

definition KR_jeopsuwanryo :: string where
  \<comment> \<open>the literal for "received" (U+C811 U+C218 U+C644 U+B8CC)\<close>
  "KR_jeopsuwanryo = [CHR 0xEC, CHR 0xA0, CHR 0x91, CHR 0xEC, CHR 0x88, CHR 0x98,
                      CHR 0xEC, CHR 0x99, CHR 0x84, CHR 0xEB, CHR 0xA3, CHR 0x8C]"

definition KR_baesongjunbi :: string where
  \<comment> \<open>the literal for "preparing" (U+BC30 U+C1A1 U+C900 U+BE44)\<close>
  "KR_baesongjunbi = [CHR 0xEB, CHR 0xB0, CHR 0xB0, CHR 0xEC, CHR 0x86, CHR 0xA1,
                      CHR 0xEC, CHR 0xA4, CHR 0x80, CHR 0xEB, CHR 0xB9, CHR 0x84]"

definition KR_baesongjung :: string where
  \<comment> \<open>the literal for "in transit" (U+BC30 U+C1A1 U+C911)\<close>
  "KR_baesongjung = [CHR 0xEB, CHR 0xB0, CHR 0xB0, CHR 0xEC, CHR 0x86, CHR 0xA1,
                     CHR 0xEC, CHR 0xA4, CHR 0x91]"

definition KR_baesongwanryo :: string where
  \<comment> \<open>the literal for "delivered" (U+BC30 U+C1A1 U+C644 U+B8CC)\<close>
  "KR_baesongwanryo = [CHR 0xEB, CHR 0xB0, CHR 0xB0, CHR 0xEC, CHR 0x86, CHR 0xA1,
                       CHR 0xEC, CHR 0x99, CHR 0x84, CHR 0xEB, CHR 0xA3, CHR 0x8C]"

definition KR_chwiso :: string where
  \<comment> \<open>the literal for "cancelled" (U+CDE8 U+C18C)\<close>
  "KR_chwiso = [CHR 0xEC, CHR 0xB7, CHR 0xA8, CHR 0xEC, CHR 0x86, CHR 0x8C]"

definition KR_bansong :: string where
  \<comment> \<open>the literal for "returned" (U+BC18 U+C1A1)\<close>
  "KR_bansong = [CHR 0xEB, CHR 0xB0, CHR 0x98, CHR 0xEC, CHR 0x86, CHR 0xA1]"

section \<open>The dashboard: orders, statistics and refresh\<close>

text \<open>
  \<open>ShippingOrder\<close> keeps the fields of the interface that the dashboard logic reads or
  writes; the address and package fields are carried along unread by the code and are
  left out. The field \<open>id\<close> is \<open>order_id\<close> here (\<open>id\<close> is the identity function of
  HOL); where two interfaces of the source share a field name (\<open>status\<close>, \<open>title\<close>,
  \<open>timeout\<close>, ...), the later record prefixes it.
\<close>

record ShippingOrder =
  order_id :: int
  status :: string
  sender_name :: string
  receiver_name :: string
  tracking_number :: "string option"
  updated_at :: string

record DashboardStats =
  total :: nat
  cnt_jeopsuwanryo :: nat
  cnt_baesongjunbi :: nat
  cnt_baesongjung :: nat
  cnt_baesongwanryo :: nat
  cnt_chwiso :: nat
  cnt_bansong :: nat

text \<open>What a rejected promise or a thrown exception carries.\<close>

datatype js_error = NetworkError | HttpStatus nat | TypeError

text \<open>The two \<open>console.error\<close> calls of the dashboard, by their message.\<close>

datatype log_tag = FetchOrdersFailed | StatusUpdateFailed

text \<open>The argument object of the \<open>onOrderStatusChange\<close> callback.\<close>

record OrderInfo =
  orderId :: int
  info_status :: string
  customerName :: "string option"
  trackingNumber :: "string option"

text \<open>
  The state of the \<open>Dashboard\<close> component: its \<open>useState\<close> cells and refs that the
  refresh logic touches. Three further fields record the effects on the outside world:
  \<open>get_requests\<close> counts the calls of \<open>api.get('/shipping/orders')\<close>, \<open>console_error\<close>
  lists the \<open>console.error\<close> calls, and \<open>status_callbacks\<close> lists the calls of the
  \<open>onOrderStatusChange\<close> prop.
\<close>

record Dashboard =
  orders :: "ShippingOrder list"
  stats :: DashboardStats
  loading :: bool
  isRefreshing :: bool
  lastUpdated :: nat
  selectedOrder :: "ShippingOrder option"
  isAutoRefreshEnabled :: bool
  intervalRef :: "nat option"
  visibilityRef :: bool
  get_requests :: nat
  console_error :: "(log_tag \<times> js_error) list"
  status_callbacks :: "OrderInfo list"

definition initial_stats :: DashboardStats where
  "initial_stats = \<lparr>total = 0, cnt_jeopsuwanryo = 0, cnt_baesongjunbi = 0, cnt_baesongjung = 0,
                    cnt_baesongwanryo = 0, cnt_chwiso = 0, cnt_bansong = 0\<rparr>"

definition initial_Dashboard :: "nat \<Rightarrow> Dashboard" where
  \<comment> \<open>the initial values of the \<open>useState\<close> and \<open>useRef\<close> calls; the argument is \<open>new Date()\<close>\<close>
  "initial_Dashboard now =
     \<lparr>orders = [], stats = initial_stats, loading = True, isRefreshing = False,
      lastUpdated = now, selectedOrder = None, isAutoRefreshEnabled = True,
      intervalRef = None, visibilityRef = True, get_requests = 0,
      console_error = [], status_callbacks = []\<rparr>"

text \<open>The statistics object \<open>newStats\<close> built inside \<open>fetchOrders\<close>.\<close>

definition newStats :: "ShippingOrder list \<Rightarrow> DashboardStats" where
  "newStats ordersData =
     \<lparr>total = length ordersData,
      cnt_jeopsuwanryo = length (filter (\<lambda>x. status x = KR_jeopsuwanryo) ordersData),
      cnt_baesongjunbi = length (filter (\<lambda>x. status x = KR_baesongjunbi) ordersData),
      cnt_baesongjung = length (filter (\<lambda>x. status x = KR_baesongjung) ordersData),
      cnt_baesongwanryo = length (filter (\<lambda>x. status x = KR_baesongwanryo) ordersData),
      cnt_chwiso = length (filter (\<lambda>x. status x = KR_chwiso) ordersData),
      cnt_bansong = length (filter (\<lambda>x. status x = KR_bansong) ordersData)\<rparr>"

text \<open>
  The outcome of \<open>await api.get('/shipping/orders')\<close>: \<open>Inl e\<close> when the promise rejects
  with \<open>e\<close>, \<open>Inr d\<close> when it resolves, \<open>d\<close> being the value of \<open>response.data.orders\<close>
  (\<open>None\<close> when the field is missing, which \<open>|| []\<close> turns into the empty list; an array,
  also the empty one, is truthy).
\<close>

type_synonym orders_response = "js_error + ShippingOrder list option"

text \<open>
  \<open>fetchOrders\<close>. The backend's answer and the clock are arguments. The first component
  of the result is how the returned promise settles: \<open>Inr ()\<close> is a normal return,
  \<open>Inl e\<close> would be a rejection with \<open>e\<close>.
\<close>

definition fetchOrders ::
  "bool \<Rightarrow> orders_response \<Rightarrow> nat \<Rightarrow> Dashboard \<Rightarrow> (js_error + unit) \<times> Dashboard" where
  "fetchOrders showRefreshIndicator response now s =
     (let s1 = (if showRefreshIndicator then s\<lparr>isRefreshing := True\<rparr> else s\<lparr>loading := True\<rparr>);
          s2 = s1\<lparr>get_requests := get_requests s1 + 1\<rparr>;
          s3 = (case response of
                  Inr d \<Rightarrow>
                    (let ordersData = (case d of Some os \<Rightarrow> os | None \<Rightarrow> [])
                     in s2\<lparr>orders := ordersData, lastUpdated := now, stats := newStats ordersData\<rparr>)
                | Inl e \<Rightarrow> s2\<lparr>console_error := console_error s2 @ [(FetchOrdersFailed, e)]\<rparr>)
      in (Inr (), s3\<lparr>loading := False, isRefreshing := False\<rparr>))"

text \<open>The snapshot: the order list together with the derived counts.\<close>

definition snapshot :: "Dashboard \<Rightarrow> ShippingOrder list \<times> DashboardStats" where
  "snapshot s = (orders s, stats s)"

text \<open>The counts agree with the list, field by field.\<close>

definition consistent :: "Dashboard \<Rightarrow> bool" where
  "consistent s \<longleftrightarrow>
     total (stats s) = length (orders s) \<and>
     cnt_jeopsuwanryo (stats s) = length (filter (\<lambda>x. status x = KR_jeopsuwanryo) (orders s)) \<and>
     cnt_baesongjunbi (stats s) = length (filter (\<lambda>x. status x = KR_baesongjunbi) (orders s)) \<and>
     cnt_baesongjung (stats s) = length (filter (\<lambda>x. status x = KR_baesongjung) (orders s)) \<and>
     cnt_baesongwanryo (stats s) = length (filter (\<lambda>x. status x = KR_baesongwanryo) (orders s)) \<and>
     cnt_chwiso (stats s) = length (filter (\<lambda>x. status x = KR_chwiso) (orders s)) \<and>
     cnt_bansong (stats s) = length (filter (\<lambda>x. status x = KR_bansong) (orders s))"


subsection \<open>The polling timer and page visibility\<close>

text \<open>
  The body of the effect that owns the interval: with auto-refresh on it stores the handle
  \<open>h\<close> that \<open>setInterval\<close> returned, otherwise it clears and forgets the stored handle.
\<close>

definition autoRefresh_effect :: "nat \<Rightarrow> Dashboard \<Rightarrow> Dashboard" where
  "autoRefresh_effect h s =
     (if isAutoRefreshEnabled s then s\<lparr>intervalRef := Some h\<rparr>
      else (case intervalRef s of Some _ \<Rightarrow> s\<lparr>intervalRef := None\<rparr> | None \<Rightarrow> s))"

text \<open>The period of the interval, in milliseconds.\<close>

definition interval_ms :: nat where
  "interval_ms = 10000"

text \<open>The callback given to \<open>setInterval\<close>: it refreshes only when \<open>visibilityRef\<close> is set.\<close>

definition interval_callback :: "orders_response \<Rightarrow> nat \<Rightarrow> Dashboard \<Rightarrow> Dashboard" where
  "interval_callback response now s =
     (if visibilityRef s then snd (fetchOrders True response now s) else s)"

text \<open>
  \<open>handleVisibilityChange\<close>; the first argument is the value of \<open>document.hidden\<close> when the
  \<open>visibilitychange\<close> event is delivered.
\<close>

definition handleVisibilityChange ::
  "bool \<Rightarrow> orders_response \<Rightarrow> nat \<Rightarrow> Dashboard \<Rightarrow> Dashboard" where
  "handleVisibilityChange document_hidden response now s =
     (let s1 = s\<lparr>visibilityRef := \<not> document_hidden\<rparr>
      in if \<not> document_hidden \<and> isAutoRefreshEnabled s
         then snd (fetchOrders True response now s1) else s1)"

definition handleManualRefresh :: "orders_response \<Rightarrow> nat \<Rightarrow> Dashboard \<Rightarrow> Dashboard" where
  "handleManualRefresh response now s = snd (fetchOrders True response now s)"

text \<open>
  What happens at mount: the interval effect runs and the initial load \<open>fetchOrders()\<close>
  is made.
\<close>

definition mount :: "nat \<Rightarrow> orders_response \<Rightarrow> nat \<Rightarrow> Dashboard \<Rightarrow> Dashboard" where
  "mount h response now s = snd (fetchOrders False response now (autoRefresh_effect h s))"

text \<open>
  The events that drive the scheduler. Each carries the backend's answer and the clock for
  the refresh it may start (unused when no refresh is started). A tick is an expiry of
  the interval; the browser delivers it only while an interval is registered.
\<close>

datatype event =
    Tick orders_response nat
  | VisibilityChange bool orders_response nat

fun step :: "event \<Rightarrow> Dashboard \<Rightarrow> Dashboard" where
  "step (Tick response now) s =
     (case intervalRef s of None \<Rightarrow> s | Some _ \<Rightarrow> interval_callback response now s)"
| "step (VisibilityChange document_hidden response now) s =
     handleVisibilityChange document_hidden response now s"

fun run :: "event list \<Rightarrow> Dashboard \<Rightarrow> Dashboard" where
  "run [] s = s"
| "run (e # es) s = run es (step e s)"

text \<open>The ticks that expire while \<open>ms\<close> milliseconds pass, counted from an expiry.\<close>

definition ticks_during :: "nat \<Rightarrow> orders_response \<Rightarrow> nat \<Rightarrow> event list" where
  "ticks_during ms response now = replicate (ms div interval_ms) (Tick response now)"

subsection \<open>Status updates\<close>

text \<open>
  \<open>handleStatusUpdate\<close>. \<open>update_result\<close> is the outcome of
  \<open>await shippingAPI.updateOrderStatus(orderId, newStatus)\<close>, \<open>response\<close> that of the
  re-fetch; \<open>has_callback\<close> says whether the \<open>onOrderStatusChange\<close> prop is given. The
  \<open>selectedOrder\<close> read after the awaits is the one the handler closed over, that of the
  state it was called in. The first component of the result is how the returned promise
  settles.
\<close>

definition handleStatusUpdate ::
  "int \<Rightarrow> string \<Rightarrow> (js_error + unit) \<Rightarrow> orders_response \<Rightarrow> nat \<Rightarrow> bool \<Rightarrow> Dashboard
     \<Rightarrow> (js_error + unit) \<times> Dashboard" where
  "handleStatusUpdate orderId' newStatus update_result response now has_callback s =
     (case update_result of
        Inl e \<Rightarrow> (Inr (), s\<lparr>console_error := console_error s @ [(StatusUpdateFailed, e)]\<rparr>)
      | Inr _ \<Rightarrow>
          (let s1 = snd (fetchOrders True response now s);
               s2 = (case selectedOrder s of
                       Some sel \<Rightarrow>
                         if order_id sel = orderId'
                         then s1\<lparr>selectedOrder := Some (sel\<lparr>status := newStatus\<rparr>)\<rparr> else s1
                     | None \<Rightarrow> s1);
               s3 = (case selectedOrder s of
                       Some sel \<Rightarrow>
                         if has_callback
                         then s2\<lparr>status_callbacks := status_callbacks s2 @
                                 [\<lparr>orderId = orderId', info_status = newStatus,
                                   customerName = Some (receiver_name sel),
                                   trackingNumber = tracking_number sel\<rparr>]\<rparr>
                         else s2
                     | None \<Rightarrow> s2)
           in (Inr (), s3)))"

text \<open>
  The caller: \<open>handleStatusChange\<close> of the order detail modal, with the modal's own state.
  \<open>onStatusUpdate\<close> is the optional prop; the dashboard passes \<open>handleStatusUpdate\<close> for
  admins and managers.
\<close>

datatype modal_log_tag = StatusChangeFailed

record OrderDetailModal =
  isUpdatingStatus :: bool
  showStatusDropdown :: bool
  modal_console_error :: "(modal_log_tag \<times> js_error) list"

definition handleStatusChange ::
  "(int \<Rightarrow> string \<Rightarrow> 'p \<Rightarrow> (js_error + unit) \<times> 'p) option \<Rightarrow> ShippingOrder \<Rightarrow> string
     \<Rightarrow> 'p \<times> OrderDetailModal \<Rightarrow> 'p \<times> OrderDetailModal" where
  "handleStatusChange onStatusUpdate order' newStatus pm =
     (case onStatusUpdate of
        None \<Rightarrow> pm
      | Some f \<Rightarrow>
          (let m1 = (snd pm)\<lparr>isUpdatingStatus := True\<rparr>;
               r = f (order_id order') newStatus (fst pm);
               m2 = (case fst r of
                       Inr _ \<Rightarrow> m1\<lparr>showStatusDropdown := False\<rparr>
                     | Inl e \<Rightarrow> m1\<lparr>modal_console_error :=
                                     modal_console_error m1 @ [(StatusChangeFailed, e)]\<rparr>)
           in (snd r, m2\<lparr>isUpdatingStatus := False\<rparr>)))"


section \<open>The notification hook\<close>

subsection \<open>Numbers as text\<close>

text \<open>
  \<open>toString()\<close> of a non-negative integer, and of an integer: the decimal digits, with a
  minus sign for a negative one. Order ids and \<open>Date.now()\<close> are integers that a
  JavaScript number holds exactly (below \<open>2^53\<close> in magnitude); the functions are meant
  for these only. From \<open>10^21\<close> on JavaScript prints the exponent form, which is not
  modelled.
\<close>

fun digits10 :: "nat \<Rightarrow> string" where
  "digits10 n = (if n < 10 then [char_of (48 + n)]
                 else digits10 (n div 10) @ [char_of (48 + n mod 10)])"

declare digits10.simps [simp del]

definition Number_toString :: "int \<Rightarrow> string" where
  "Number_toString i = (if i < 0 then CHR ''-'' # digits10 (nat (- i)) else digits10 (nat i))"

text \<open>\<open>s.substr(start, len)\<close> for a non-negative start.\<close>

definition substr :: "nat \<Rightarrow> nat \<Rightarrow> string \<Rightarrow> string" where
  "substr start len s = take len (drop start s)"

text \<open>A value inside a template literal: \<open>undefined\<close> is printed as the word.\<close>

definition template :: "string option \<Rightarrow> string" where
  "template v = (case v of Some s \<Rightarrow> s | None \<Rightarrow> ''undefined'')"

subsection \<open>State\<close>

datatype NotificationPermission = Default | Granted | Denied

datatype ToastType = Success | Info | Warning | Error

text \<open>
  \<open>NotificationOptions\<close>. An optional field is an \<open>option\<close>; \<open>None\<close> is \<open>undefined\<close>.
\<close>

record NotificationOptions =
  opt_title :: string
  opt_body :: string
  opt_icon :: "string option"
  opt_tag :: "string option"
  opt_requireInteraction :: "bool option"
  opt_timeout :: "int option"

text \<open>What \<open>new Notification(title, {...})\<close> is given: an OS notification.\<close>

record BrowserNotification =
  n_title :: string
  n_body :: string
  n_icon :: string
  n_tag :: "string option"
  n_requireInteraction :: bool

text \<open>
  \<open>ToastNotification\<close>, and the argument of \<open>showToast\<close> (the same without the id). The
  type and the title are typed as always present, but \<open>notifyOrderStatusChange\<close> passes
  values read off an untyped lookup, which can be \<open>undefined\<close> at run time: they are
  options here.
\<close>

record ToastSpec =
  spec_type :: "ToastType option"
  spec_title :: "string option"
  spec_message :: string
  spec_timeout :: "int option"

record ToastNotification =
  toast_id :: string
  toast_type :: "ToastType option"
  toast_title :: "string option"
  toast_message :: string
  toast_timeout :: "int option"

text \<open>What a pending \<open>setTimeout\<close> will do: close the n-th shown notification, or remove a toast.\<close>

datatype timer_action = CloseNotification nat | RemoveToast string

text \<open>
  The hook's two state cells (\<open>permission\<close>, \<open>toasts\<close>) and the browser around it:
  whether \<open>'Notification' in window\<close> holds, the result that the k-th call of
  \<open>Notification.requestPermission()\<close> resolves to and the number of calls made so far,
  the OS notifications created so far, and the pending timeouts with their delays.
\<close>

record World =
  permission :: NotificationPermission
  toasts :: "ToastNotification list"
  notification_in_window :: bool
  request_results :: "nat \<Rightarrow> NotificationPermission"
  request_calls :: nat
  shown :: "BrowserNotification list"
  timers :: "(int \<times> timer_action) list"

subsection \<open>Operations\<close>

definition requestPermission :: "World \<Rightarrow> NotificationPermission \<times> World" where
  "requestPermission w =
     (if notification_in_window w
      then (let result = request_results w (request_calls w);
                w1 = w\<lparr>request_calls := request_calls w + 1\<rparr>
            in (result, w1\<lparr>permission := result\<rparr>))
      else (Denied, w))"

text \<open>
  \<open>showBrowserNotification\<close>. The callback is built by \<open>useCallback\<close> in one render and
  reads the \<open>permission\<close> of that render: the first argument \<open>perm\<close> is this captured
  value, which \<open>setPermission\<close> (a write to the state cell of the world) does not change.
  The name \<open>showBrowserNotification\<close> inside the body is the constant of the same render,
  that is, this very callback, so the recursive call has the same \<open>perm\<close>. A call that
  never returns has the value \<open>None\<close>; a call that returns \<open>null\<close> has the value
  \<open>Some (None, _)\<close>.
\<close>

partial_function (option) showBrowserNotification ::
  "NotificationPermission \<Rightarrow> NotificationOptions \<Rightarrow> World
     \<Rightarrow> (BrowserNotification option \<times> World) option" where
  "showBrowserNotification perm options w =
     (if notification_in_window w \<and> perm = Granted then
        (let notification =
               \<lparr>n_title = opt_title options,
                n_body = opt_body options,
                n_icon = (case opt_icon options of
                            Some i \<Rightarrow> if i \<noteq> [] then i else ''/favicon.ico''
                          | None \<Rightarrow> ''/favicon.ico''),
                n_tag = opt_tag options,
                n_requireInteraction = (case opt_requireInteraction options of
                                          Some b \<Rightarrow> b | None \<Rightarrow> False)\<rparr>;
             w1 = w\<lparr>shown := shown w @ [notification]\<rparr>;
             w2 = (case opt_timeout options of
                     Some t \<Rightarrow>
                       if t \<noteq> 0
                       then w1\<lparr>timers := timers w1 @ [(t, CloseNotification (length (shown w)))]\<rparr>
                       else w1
                   | None \<Rightarrow> w1)
         in Some (Some notification, w2))
      else if perm = Default then
        (case requestPermission w of
           (newPermission, w1) \<Rightarrow>
             if newPermission = Granted then showBrowserNotification perm options w1
             else Some (None, w1))
      else Some (None, w))"

text \<open>
  \<open>showToast\<close>. \<open>now\<close> is \<open>Date.now()\<close> and \<open>rnd\<close> is the string
  \<open>Math.random().toString(36)\<close>. The result is the id and the new world.
\<close>

definition showToast :: "ToastSpec \<Rightarrow> nat \<Rightarrow> string \<Rightarrow> World \<Rightarrow> string \<times> World" where
  "showToast toast now rnd w =
     (let id' = digits10 now @ substr 2 9 rnd;
          newToast =
            \<lparr>toast_id = id',
             toast_type = spec_type toast,
             toast_title = spec_title toast,
             toast_message = spec_message toast,
             toast_timeout = (case spec_timeout toast of
                                Some t \<Rightarrow> if t \<noteq> 0 then Some t else Some 5000
                              | None \<Rightarrow> Some 5000)\<rparr>;
          w1 = w\<lparr>toasts := toasts w @ [newToast]\<rparr>;
          w2 = (case toast_timeout newToast of
                  Some t \<Rightarrow>
                    if t \<noteq> 0 \<and> t > 0 then w1\<lparr>timers := timers w1 @ [(t, RemoveToast id')]\<rparr>
                    else w1
                | None \<Rightarrow> w1)
      in (id', w2))"

definition removeToast :: "string \<Rightarrow> World \<Rightarrow> World" where
  "removeToast id' w = w\<lparr>toasts := filter (\<lambda>toast. toast_id toast \<noteq> id') (toasts w)\<rparr>"

definition clearToasts :: "World \<Rightarrow> World" where
  "clearToasts w = w\<lparr>toasts := []\<rparr>"

text \<open>The expiry of a pending timeout runs its action.\<close>

fun fire :: "timer_action \<Rightarrow> World \<Rightarrow> World" where
  "fire (RemoveToast id') w = removeToast id' w"
| "fire (CloseNotification k) w = w"

subsection \<open>The status table\<close>

definition KR_title_jeopsuwanryo :: string where
  "KR_title_jeopsuwanryo =
     [CHR 0xEC, CHR 0xA3, CHR 0xBC, CHR 0xEB, CHR 0xAC, CHR 0xB8, CHR 0x20, CHR 0xEC, CHR 0xA0,
      CHR 0x91, CHR 0xEC, CHR 0x88, CHR 0x98, CHR 0x20, CHR 0xEC, CHR 0x99, CHR 0x84, CHR 0xEB,
      CHR 0xA3, CHR 0x8C]"

definition KR_title_baesongjunbi :: string where
  "KR_title_baesongjunbi =
     [CHR 0xEB, CHR 0xB0, CHR 0xB0, CHR 0xEC, CHR 0x86, CHR 0xA1, CHR 0x20, CHR 0xEC, CHR 0xA4,
      CHR 0x80, CHR 0xEB, CHR 0xB9, CHR 0x84, CHR 0x20, CHR 0xEC, CHR 0xA4, CHR 0x91]"

definition KR_title_baesongjung :: string where
  "KR_title_baesongjung =
     [CHR 0xEB, CHR 0xB0, CHR 0xB0, CHR 0xEC, CHR 0x86, CHR 0xA1, CHR 0x20, CHR 0xEC, CHR 0x8B,
      CHR 0x9C, CHR 0xEC, CHR 0x9E, CHR 0x91]"

definition KR_title_baesongwanryo :: string where
  "KR_title_baesongwanryo =
     [CHR 0xEB, CHR 0xB0, CHR 0xB0, CHR 0xEC, CHR 0x86, CHR 0xA1, CHR 0x20, CHR 0xEC, CHR 0x99,
      CHR 0x84, CHR 0xEB, CHR 0xA3, CHR 0x8C]"

definition KR_title_chwiso :: string where
  "KR_title_chwiso =
     [CHR 0xEC, CHR 0xA3, CHR 0xBC, CHR 0xEB, CHR 0xAC, CHR 0xB8, CHR 0x20, CHR 0xEC, CHR 0xB7,
      CHR 0xA8, CHR 0xEC, CHR 0x86, CHR 0x8C]"

definition KR_title_bansong :: string where
  "KR_title_bansong =
     [CHR 0xEC, CHR 0xA3, CHR 0xBC, CHR 0xEB, CHR 0xAC, CHR 0xB8, CHR 0x20, CHR 0xEB, CHR 0xB0,
      CHR 0x98, CHR 0xEC, CHR 0x86, CHR 0xA1]"

definition KR_title_default :: string where
  \<comment> \<open>the default title, "status change" (U+C0C1 U+D0DC, space, U+BCC0 U+ACBD)\<close>
  "KR_title_default =
     [CHR 0xEC, CHR 0x83, CHR 0x81, CHR 0xED, CHR 0x83, CHR 0x9C, CHR 0x20, CHR 0xEB, CHR 0xB3,
      CHR 0x80, CHR 0xEA, CHR 0xB2, CHR 0xBD]"

definition emoji_package :: string where
  \<comment> \<open>U+1F4E6\<close>
  "emoji_package = [CHR 0xF0, CHR 0x9F, CHR 0x93, CHR 0xA6]"

definition emoji_clipboard :: string where
  \<comment> \<open>U+1F4CB\<close>
  "emoji_clipboard = [CHR 0xF0, CHR 0x9F, CHR 0x93, CHR 0x8B]"

definition emoji_truck :: string where
  \<comment> \<open>U+1F69A\<close>
  "emoji_truck = [CHR 0xF0, CHR 0x9F, CHR 0x9A, CHR 0x9A]"

definition emoji_check :: string where
  \<comment> \<open>U+2705\<close>
  "emoji_check = [CHR 0xE2, CHR 0x9C, CHR 0x85]"

definition emoji_cross :: string where
  \<comment> \<open>U+274C\<close>
  "emoji_cross = [CHR 0xE2, CHR 0x9D, CHR 0x8C]"

definition emoji_return :: string where
  \<comment> \<open>U+21A9 U+FE0F\<close>
  "emoji_return = [CHR 0xE2, CHR 0x86, CHR 0xA9, CHR 0xEF, CHR 0xB8, CHR 0x8F]"

text \<open>
  What the code reads off the looked-up value: its \<open>title\<close>, \<open>emoji\<close> and \<open>color\<close>
  properties, each \<open>undefined\<close> (\<open>None\<close>) on a value that has no such property.
\<close>

record StatusInfo =
  si_title :: "string option"
  si_emoji :: "string option"
  si_color :: "ToastType option"

definition entry :: "string \<Rightarrow> string \<Rightarrow> ToastType \<Rightarrow> StatusInfo" where
  "entry t e c = \<lparr>si_title = Some t, si_emoji = Some e, si_color = Some c\<rparr>"

text \<open>The six own properties of the object literal \<open>statusMessages\<close>, in source order.\<close>

definition statusMessages :: "(string \<times> StatusInfo) list" where
  "statusMessages =
     [(KR_jeopsuwanryo, entry KR_title_jeopsuwanryo emoji_package Info),
      (KR_baesongjunbi, entry KR_title_baesongjunbi emoji_clipboard Info),
      (KR_baesongjung, entry KR_title_baesongjung emoji_truck Info),
      (KR_baesongwanryo, entry KR_title_baesongwanryo emoji_check Success),
      (KR_chwiso, entry KR_title_chwiso emoji_cross Warning),
      (KR_bansong, entry KR_title_bansong emoji_return Error)]"

definition default_entry :: StatusInfo where
  "default_entry = entry KR_title_default emoji_clipboard Info"

text \<open>
  \<open>statusMessages\<close> is an ordinary object, so \<open>statusMessages[key]\<close> also finds the
  properties that every object inherits from \<open>Object.prototype\<close>. These are their names;
  each of the inherited values is a function or an object, hence truthy, and has no
  \<open>title\<close>, \<open>emoji\<close> or \<open>color\<close> property.
\<close>

definition Object_prototype_keys :: "string list" where
  "Object_prototype_keys =
     [''constructor'', ''hasOwnProperty'', ''isPrototypeOf'', ''propertyIsEnumerable'',
      ''toLocaleString'', ''toString'', ''valueOf'', ''__proto__'',
      ''__defineGetter__'', ''__defineSetter__'', ''__lookupGetter__'', ''__lookupSetter__'']"

definition inherited_value :: StatusInfo where
  "inherited_value = \<lparr>si_title = None, si_emoji = None, si_color = None\<rparr>"

text \<open>\<open>statusMessages[key]\<close>: \<open>None\<close> is \<open>undefined\<close>.\<close>

definition statusMessages_get :: "string \<Rightarrow> StatusInfo option" where
  "statusMessages_get key =
     (case map_of statusMessages key of
        Some v \<Rightarrow> Some v
      | None \<Rightarrow> if key \<in> set Object_prototype_keys then Some inherited_value else None)"

text \<open>\<open>statusMessages[orderInfo.status] || { default }\<close>: every value found is truthy.\<close>

definition statusInfo :: "string \<Rightarrow> StatusInfo" where
  "statusInfo status' = (case statusMessages_get status' of Some v \<Rightarrow> v | None \<Rightarrow> default_entry)"

subsection \<open>Order status notifications\<close>

definition KR_waybill :: string where
  "KR_waybill = [CHR 0xEC, CHR 0x9A, CHR 0xB4, CHR 0xEC, CHR 0x86, CHR 0xA1, CHR 0xEC, CHR 0x9E,
                 CHR 0xA5, CHR 0x3A, CHR 0x20]"

definition KR_order_number :: string where
  "KR_order_number = [CHR 0xEC, CHR 0xA3, CHR 0xBC, CHR 0xEB, CHR 0xAC, CHR 0xB8, CHR 0xEB,
                      CHR 0xB2, CHR 0x88, CHR 0xED, CHR 0x98, CHR 0xB8, CHR 0x3A, CHR 0x20]"

definition KR_customer :: string where
  "KR_customer = [CHR 0xEA, CHR 0xB3, CHR 0xA0, CHR 0xEA, CHR 0xB0, CHR 0x9D]"

definition KR_order_of :: string where
  "KR_order_of = [CHR 0xEB, CHR 0x8B, CHR 0x98, CHR 0xEC, CHR 0x9D, CHR 0x98, CHR 0x20, CHR 0xEC,
                  CHR 0xA3, CHR 0xBC, CHR 0xEB, CHR 0xAC, CHR 0xB8, CHR 0xEC, CHR 0x9D, CHR 0xB4,
                  CHR 0x20]"

definition KR_changed_to :: string where
  "KR_changed_to =
     [CHR 0x20, CHR 0xEC, CHR 0x83, CHR 0x81, CHR 0xED, CHR 0x83, CHR 0x9C, CHR 0xEB, CHR 0xA1,
      CHR 0x9C, CHR 0x20, CHR 0xEB, CHR 0xB3, CHR 0x80, CHR 0xEA, CHR 0xB2, CHR 0xBD, CHR 0xEB,
      CHR 0x90, CHR 0x98, CHR 0xEC, CHR 0x97, CHR 0x88, CHR 0xEC, CHR 0x8A, CHR 0xB5, CHR 0xEB,
      CHR 0x8B, CHR 0x88, CHR 0xEB, CHR 0x8B, CHR 0xA4, CHR 0x2E]"

definition KR_order_hash :: string where
  "KR_order_hash = [CHR 0xEC, CHR 0xA3, CHR 0xBC, CHR 0xEB, CHR 0xAC, CHR 0xB8, CHR 0x20, CHR 0x23]"

definition KR_subject :: string where
  "KR_subject = [CHR 0xEC, CHR 0x9D, CHR 0xB4, CHR 0x20]"

text \<open>The options of the OS notification and the toast that \<open>notifyOrderStatusChange\<close> builds.\<close>

definition status_message :: "OrderInfo \<Rightarrow> string" where
  "status_message orderInfo =
     (case trackingNumber orderInfo of
        Some tn \<Rightarrow> if tn \<noteq> [] then KR_waybill @ tn
                   else KR_order_number @ Number_toString (orderId orderInfo)
      | None \<Rightarrow> KR_order_number @ Number_toString (orderId orderInfo))"

definition status_notification_options :: "OrderInfo \<Rightarrow> NotificationOptions" where
  "status_notification_options orderInfo =
     (let info = statusInfo (info_status orderInfo)
      in \<lparr>opt_title = template (si_emoji info) @ '' '' @ template (si_title info),
          opt_body = (case customerName orderInfo of
                        Some c \<Rightarrow> if c \<noteq> [] then c else KR_customer
                      | None \<Rightarrow> KR_customer)
                     @ KR_order_of @ info_status orderInfo @ KR_changed_to
                     @ [CHR 0x0A] @ status_message orderInfo,
          opt_icon = None,
          opt_tag = Some (''order-'' @ Number_toString (orderId orderInfo)),
          opt_requireInteraction = Some (info_status orderInfo = KR_baesongwanryo),
          opt_timeout = Some 8000\<rparr>)"

definition status_toast :: "OrderInfo \<Rightarrow> ToastSpec" where
  "status_toast orderInfo =
     (let info = statusInfo (info_status orderInfo)
      in \<lparr>spec_type = si_color info,
          spec_title = si_title info,
          spec_message = KR_order_hash @ Number_toString (orderId orderInfo) @ KR_subject
                         @ info_status orderInfo @ KR_changed_to,
          spec_timeout = Some 5000\<rparr>)"

text \<open>
  \<open>notifyOrderStatusChange\<close>: it awaits \<open>showBrowserNotification\<close> (the callback of the
  render it was built in, with that render's \<open>perm\<close>) and then shows the toast. \<open>None\<close>
  is a call that never completes; nothing in it throws.
\<close>

definition notifyOrderStatusChange ::
  "NotificationPermission \<Rightarrow> OrderInfo \<Rightarrow> nat \<Rightarrow> string \<Rightarrow> World \<Rightarrow> World option" where
  "notifyOrderStatusChange perm orderInfo now rnd w =
     (case showBrowserNotification perm (status_notification_options orderInfo) w of
        None \<Rightarrow> None
      | Some r \<Rightarrow> Some (snd (showToast (status_toast orderInfo) now rnd (snd r))))"


section \<open>Reachable states, the specification's words, and example inputs\<close>

definition toggleAutoRefresh :: "nat \<Rightarrow> Dashboard \<Rightarrow> Dashboard" where
  \<comment> \<open>the state change, followed by the interval effect that the change re-runs\<close>
  "toggleAutoRefresh h s = autoRefresh_effect h (s\<lparr>isAutoRefreshEnabled := \<not> isAutoRefreshEnabled s\<rparr>)"

text \<open>
  The states that the dashboard can be in between two handlers: the initial one, and those
  reached by mounting, by interval and visibility events, by a manual refresh, by toggling
  auto-refresh, by opening or closing the detail modal, and by a status update.
\<close>

inductive reachable :: "Dashboard \<Rightarrow> bool" where
  reach_initial: "reachable (initial_Dashboard now)"
| reach_mount: "reachable s \<Longrightarrow> reachable (mount h response now s)"
| reach_step: "reachable s \<Longrightarrow> reachable (step e s)"
| reach_manual: "reachable s \<Longrightarrow> reachable (handleManualRefresh response now s)"
| reach_toggle: "reachable s \<Longrightarrow> reachable (toggleAutoRefresh h s)"
| reach_select: "reachable s \<Longrightarrow> reachable (s\<lparr>selectedOrder := sel\<rparr>)"
| reach_update:
    "reachable s \<Longrightarrow>
     reachable (snd (handleStatusUpdate i newStatus update_result response now has_callback s))"

text \<open>The six statuses that have a counter, and the sum of the six counters.\<close>

definition recognized_statuses :: "string list" where
  "recognized_statuses =
     [KR_jeopsuwanryo, KR_baesongjunbi, KR_baesongjung, KR_baesongwanryo, KR_chwiso, KR_bansong]"

definition sum_of_counters :: "DashboardStats \<Rightarrow> nat" where
  "sum_of_counters st =
     cnt_jeopsuwanryo st + cnt_baesongjunbi st + cnt_baesongjung st +
     cnt_baesongwanryo st + cnt_chwiso st + cnt_bansong st"

text \<open>
  In the specification's words: \<open>patchStatus\<close> replaces the status field of the order with
  the given id and touches no other order.
\<close>

definition spec_patchStatus :: "int \<Rightarrow> string \<Rightarrow> ShippingOrder list \<Rightarrow> ShippingOrder list" where
  "spec_patchStatus i newStatus os =
     map (\<lambda>x. if order_id x = i then x\<lparr>status := newStatus\<rparr> else x) os"

text \<open>Example inputs.\<close>

definition example_order :: ShippingOrder where
  "example_order =
     \<lparr>order_id = 1, status = KR_jeopsuwanryo, sender_name = ''A'', receiver_name = ''B'',
      tracking_number = None, updated_at = ''2025-01-01''\<rparr>"

definition example_unknown_order :: ShippingOrder where
  "example_unknown_order = example_order\<lparr>order_id := 2, status := ''unknown-value''\<rparr>"

definition example_dashboard :: Dashboard where
  "example_dashboard =
     (initial_Dashboard 0)\<lparr>orders := [example_order], stats := newStats [example_order],
                            loading := False, intervalRef := Some 1,
                            selectedOrder := Some example_order\<rparr>"

definition example_modal :: OrderDetailModal where
  "example_modal =
     \<lparr>isUpdatingStatus = False, showStatusDropdown = True, modal_console_error = []\<rparr>"

definition always :: "NotificationPermission \<Rightarrow> nat \<Rightarrow> NotificationPermission" where
  \<comment> \<open>a browser in which every permission request resolves to the same result\<close>
  "always p k = p"

definition example_world :: "NotificationPermission \<Rightarrow> World" where
  \<comment> \<open>a fresh hook in a browser with notifications, whose requests resolve to \<open>p\<close>\<close>
  "example_world p =
     \<lparr>permission = Default, toasts = [], notification_in_window = True,
      request_results = always p, request_calls = 0, shown = [], timers = []\<rparr>"

definition options_XY :: NotificationOptions where
  "options_XY =
     \<lparr>opt_title = ''X'', opt_body = ''Y'', opt_icon = None, opt_tag = None,
      opt_requireInteraction = None, opt_timeout = None\<rparr>"

definition example_toast :: "int option \<Rightarrow> ToastSpec" where
  "example_toast t =
     \<lparr>spec_type = Some Info, spec_title = Some ''T'', spec_message = ''M'', spec_timeout = t\<rparr>"

definition example_orderInfo :: "string \<Rightarrow> OrderInfo" where
  "example_orderInfo st =
     \<lparr>orderId = 7, info_status = st, customerName = None, trackingNumber = None\<rparr>"


text \<open>
  The page around the dashboard: the browser's \<open>document.hidden\<close> and the component.
  \<open>document.hidden\<close> belongs to the browser; the component reads it only inside
  \<open>handleVisibilityChange\<close>. A \<open>visibilitychange\<close> event is the browser setting
  \<open>document.hidden\<close> and then calling the handler; an expiry of the interval leaves
  \<open>document.hidden\<close> as it is.
\<close>

record Page =
  document_hidden :: bool
  dashboard :: Dashboard

fun page_step :: "event \<Rightarrow> Page \<Rightarrow> Page" where
  "page_step (Tick response now) p = p\<lparr>dashboard := step (Tick response now) (dashboard p)\<rparr>"
| "page_step (VisibilityChange hidden response now) p =
     \<lparr>document_hidden = hidden,
      dashboard = step (VisibilityChange hidden response now) (dashboard p)\<rparr>"

fun page_run :: "event list \<Rightarrow> Page \<Rightarrow> Page" where
  "page_run [] p = p"
| "page_run (e # es) p = page_run es (page_step e p)"

text \<open>
  Mounting the dashboard on a page whose \<open>document.hidden\<close> is \<open>hidden\<close>: the component
  starts from its initial state whatever \<open>hidden\<close> is (\<open>useRef<boolean>(true)\<close>), the
  interval is registered with handle \<open>h\<close> and the initial load is made. The application
  mounts a new dashboard on every render of its parent (\<open>key={Date.now()}\<close>), also
  while the tab is in the background.
\<close>

definition mount_page :: "bool \<Rightarrow> nat \<Rightarrow> orders_response \<Rightarrow> nat \<Rightarrow> Page" where
  "mount_page hidden h response now =
     \<lparr>document_hidden = hidden, dashboard = mount h response now (initial_Dashboard now)\<rparr>"

text \<open>The flag of the component says what the page is.\<close>

definition flag_agrees :: "Page \<Rightarrow> bool" where
  "flag_agrees p \<longleftrightarrow> visibilityRef (dashboard p) = (\<not> document_hidden p)"

text \<open>A dashboard mounted in a hidden tab, and one mounted in a visible tab.\<close>

definition hidden_mount_page :: Page where
  "hidden_mount_page = mount_page True 1 (Inr None) 0"

definition visible_mount_page :: Page where
  "visible_mount_page = mount_page False 1 (Inr None) 0"

text \<open>A status handler whose backend call is rejected, as the modal receives it.\<close>

definition failing_update_handler ::
  "int \<Rightarrow> string \<Rightarrow> Dashboard \<Rightarrow> (js_error + unit) \<times> Dashboard" where
  "failing_update_handler i newStatus s =
     handleStatusUpdate i newStatus (Inl NetworkError) (Inr None) 7 True s"

section \<open>Properties\<close>

lemmas KR_status_defs =
  KR_jeopsuwanryo_def KR_baesongjunbi_def KR_baesongjung_def
  KR_baesongwanryo_def KR_chwiso_def KR_bansong_def

lemma distinct_recognized_statuses: "distinct recognized_statuses"
  by (simp add: recognized_statuses_def KR_status_defs)

subsection \<open>fetchOrders\<close>

lemma fetchOrders_failure:
  "fetchOrders ind (Inl e) now s =
     (Inr (), s\<lparr>get_requests := get_requests s + 1,
                console_error := console_error s @ [(FetchOrdersFailed, e)],
                loading := False, isRefreshing := False\<rparr>)"
  by (simp add: fetchOrders_def Let_def)

lemma fetchOrders_success:
  "fetchOrders ind (Inr d) now s =
     (Inr (), s\<lparr>get_requests := get_requests s + 1,
                orders := (case d of Some os \<Rightarrow> os | None \<Rightarrow> []),
                lastUpdated := now,
                stats := newStats (case d of Some os \<Rightarrow> os | None \<Rightarrow> []),
                loading := False, isRefreshing := False\<rparr>)"
  by (simp add: fetchOrders_def Let_def)

lemma consistent_newStats:
  "orders s = xs \<Longrightarrow> stats s = newStats xs \<Longrightarrow> consistent s"
  by (simp add: consistent_def newStats_def)

lemma consistent_cong:
  "orders s' = orders s \<Longrightarrow> stats s' = stats s \<Longrightarrow> consistent s' = consistent s"
  by (simp add: consistent_def)

lemma fetchOrders_consistent:
  "consistent s \<Longrightarrow> consistent (snd (fetchOrders ind r now s))"
proof (cases r)
  case (Inl e)
  assume "consistent s"
  moreover have "consistent (snd (fetchOrders ind (Inl e) now s)) = consistent s"
    by (rule consistent_cong) (simp_all add: fetchOrders_failure)
  ultimately show ?thesis using Inl by simp
next
  case (Inr d)
  show ?thesis unfolding Inr
    by (rule consistent_newStats[where xs = "case d of Some os \<Rightarrow> os | None \<Rightarrow> []"])
       (simp_all add: fetchOrders_success)
qed

lemma step_consistent: "consistent s \<Longrightarrow> consistent (step e s)"
proof (cases e)
  case (Tick r t)
  assume c: "consistent s"
  show ?thesis using c fetchOrders_consistent[OF c, of True r t]
    by (simp add: Tick interval_callback_def split: option.splits)
next
  case (VisibilityChange h r t)
  assume c: "consistent s"
  have c1: "consistent (s\<lparr>visibilityRef := b\<rparr>)" for b
    using c consistent_cong[of "s\<lparr>visibilityRef := b\<rparr>" s] by simp
  show ?thesis
    by (simp add: VisibilityChange handleVisibilityChange_def Let_def c1 fetchOrders_consistent)
qed

lemma autoRefresh_effect_consistent: "consistent (autoRefresh_effect h s) = consistent s"
  by (rule consistent_cong) (simp_all add: autoRefresh_effect_def split: option.splits)

lemma handleStatusUpdate_consistent:
  assumes c: "consistent s"
  shows "consistent (snd (handleStatusUpdate i st u r now cb s))"
proof (cases u)
  case (Inl e)
  have "consistent (snd (handleStatusUpdate i st (Inl e) r now cb s)) = consistent s"
    by (rule consistent_cong) (simp_all add: handleStatusUpdate_def)
  then show ?thesis using c Inl by simp
next
  case (Inr x)
  let ?s1 = "snd (fetchOrders True r now s)"
  have c1: "consistent ?s1" by (rule fetchOrders_consistent[OF c])
  have "consistent (snd (handleStatusUpdate i st (Inr x) r now cb s)) = consistent ?s1"
    by (rule consistent_cong) (simp_all add: handleStatusUpdate_def Let_def split: option.splits)
  then show ?thesis using c1 Inr by simp
qed

lemma initial_consistent: "consistent (initial_Dashboard now)"
  by (simp add: consistent_def initial_Dashboard_def initial_stats_def)

text \<open>
  Claim C7. In every state the dashboard can reach, and so after every completed refresh,
  the stored counts agree with the stored list: the total is the length of the list and
  each of the six counters is the number of orders with exactly that status. The list and
  the counts are written by the same handler, so no reachable state combines a new list
  with old counts. (A refresh is one step here: React 18 applies the state writes that
  follow the await together.)
\<close>

theorem reachable_consistent:
  "reachable s \<Longrightarrow> consistent s \<and> consistent (snd (fetchOrders ind r now s))"
proof -
  assume "reachable s"
  then have "consistent s"
  proof (induction rule: reachable.induct)
    case (reach_initial now)
    show ?case by (rule initial_consistent)
  next
    case (reach_mount s h response now)
    then show ?case
      by (simp add: mount_def fetchOrders_consistent autoRefresh_effect_consistent)
  next
    case (reach_step s e)
    then show ?case by (simp add: step_consistent)
  next
    case (reach_manual s response now)
    then show ?case by (simp add: handleManualRefresh_def fetchOrders_consistent)
  next
    case (reach_toggle s h)
    have "consistent (s\<lparr>isAutoRefreshEnabled := \<not> isAutoRefreshEnabled s\<rparr>) = consistent s"
      by (rule consistent_cong) simp_all
    with reach_toggle show ?case
      by (simp add: toggleAutoRefresh_def autoRefresh_effect_consistent)
  next
    case (reach_select s sel)
    have "consistent (s\<lparr>selectedOrder := sel\<rparr>) = consistent s"
      by (rule consistent_cong) simp_all
    with reach_select show ?case by simp
  next
    case (reach_update s i newStatus update_result response now has_callback)
    then show ?case by (simp add: handleStatusUpdate_consistent)
  qed
  then show ?thesis by (simp add: fetchOrders_consistent)
qed

text \<open>The witness: the state after a refresh that returned two orders is reachable.\<close>

theorem reachable_consistent_witness:
  "reachable (snd (fetchOrders True (Inr (Some [example_order, example_unknown_order])) 5 (initial_Dashboard 0)))
   \<and> consistent (snd (fetchOrders True (Inr (Some [example_order, example_unknown_order])) 5 (initial_Dashboard 0)))"
proof -
  have r: "reachable (handleManualRefresh (Inr (Some [example_order, example_unknown_order])) 5 (initial_Dashboard 0))"
    by (rule reach_manual) (rule reach_initial)
  show ?thesis using r reachable_consistent[OF r]
    by (simp add: handleManualRefresh_def)
qed


subsection \<open>Refresh failure\<close>

text \<open>
  Claim C6. When the fetch of a refresh fails, \<open>fetchOrders\<close> returns normally, the
  snapshot (list and counts) is the previous one, the error goes to \<open>console.error\<close>
  only, exactly one request was made (no retry), and apart from the two loading flags
  nothing else in the state has changed.
\<close>

theorem fetch_failure_retains_snapshot:
  "fst (fetchOrders ind (Inl e) now s) = Inr () \<and>
   snapshot (snd (fetchOrders ind (Inl e) now s)) = snapshot s \<and>
   console_error (snd (fetchOrders ind (Inl e) now s)) = console_error s @ [(FetchOrdersFailed, e)] \<and>
   get_requests (snd (fetchOrders ind (Inl e) now s)) = get_requests s + 1 \<and>
   snd (fetchOrders ind (Inl e) now s) =
     s\<lparr>get_requests := get_requests s + 1,
       console_error := console_error s @ [(FetchOrdersFailed, e)],
       loading := False, isRefreshing := False\<rparr>"
  by (simp add: fetchOrders_failure snapshot_def)

subsection \<open>Counters\<close>

lemma count_one:
  "distinct ks \<Longrightarrow> (\<Sum>k\<leftarrow>ks. if v = k then 1 else 0 :: nat) = (if v \<in> set ks then 1 else 0)"
  by (induction ks) auto

lemma partition_by_key:
  assumes d: "distinct ks"
  shows "(\<Sum>k\<leftarrow>ks. length (filter (\<lambda>x. f x = k) xs)) +
           length (filter (\<lambda>x. f x \<notin> set ks) xs) = length xs"
proof (induction xs)
  case Nil
  show ?case by simp
next
  case (Cons x xs)
  have "(\<Sum>k\<leftarrow>ks. length (filter (\<lambda>x. f x = k) (x # xs))) =
        (\<Sum>k\<leftarrow>ks. (if f x = k then 1 else 0) + length (filter (\<lambda>x. f x = k) xs))"
    by (rule arg_cong[where f = sum_list]) simp
  also have "\<dots> = (\<Sum>k\<leftarrow>ks. if f x = k then 1 else 0) +
                  (\<Sum>k\<leftarrow>ks. length (filter (\<lambda>x. f x = k) xs))"
    by (simp add: sum_list_addf)
  also have "\<dots> = (if f x \<in> set ks then 1 else 0) +
                  (\<Sum>k\<leftarrow>ks. length (filter (\<lambda>x. f x = k) xs))"
    by (simp only: count_one[OF d])
  finally show ?case using Cons.IH by simp
qed

lemma counters_partition:
  "sum_of_counters (newStats xs) +
     length (filter (\<lambda>x. status x \<notin> set recognized_statuses) xs) = length xs"
proof -
  have "sum_of_counters (newStats xs) =
        (\<Sum>k\<leftarrow>recognized_statuses. length (filter (\<lambda>x. status x = k) xs))"
    by (simp add: sum_of_counters_def newStats_def recognized_statuses_def)
  then show ?thesis
    using partition_by_key[OF distinct_recognized_statuses, of status xs] by simp
qed

text \<open>
  Claim C10. After a successful refresh the total is the length of the fetched list and
  each counter counts the orders whose status is exactly its literal. The six counters
  and the orders with an unrecognized status add up to the total, so such an order is in
  the total and in no counter; with one such order the counters sum to less than the total.
\<close>

theorem refresh_counts_exact_matches_only:
  "orders (snd (fetchOrders ind (Inr (Some xs)) now s)) = xs \<and>
   stats (snd (fetchOrders ind (Inr (Some xs)) now s)) = newStats xs \<and>
   total (newStats xs) = length xs \<and>
   cnt_jeopsuwanryo (newStats xs) = length (filter (\<lambda>x. status x = KR_jeopsuwanryo) xs) \<and>
   cnt_baesongjunbi (newStats xs) = length (filter (\<lambda>x. status x = KR_baesongjunbi) xs) \<and>
   cnt_baesongjung (newStats xs) = length (filter (\<lambda>x. status x = KR_baesongjung) xs) \<and>
   cnt_baesongwanryo (newStats xs) = length (filter (\<lambda>x. status x = KR_baesongwanryo) xs) \<and>
   cnt_chwiso (newStats xs) = length (filter (\<lambda>x. status x = KR_chwiso) xs) \<and>
   cnt_bansong (newStats xs) = length (filter (\<lambda>x. status x = KR_bansong) xs) \<and>
   sum_of_counters (newStats xs) +
     length (filter (\<lambda>x. status x \<notin> set recognized_statuses) xs) = total (newStats xs) \<and>
   sum_of_counters (stats (snd (fetchOrders ind (Inr (Some [example_unknown_order])) now s)))
     < total (stats (snd (fetchOrders ind (Inr (Some [example_unknown_order])) now s)))"
proof -
  have p: "sum_of_counters (newStats xs) +
     length (filter (\<lambda>x. status x \<notin> set recognized_statuses) xs) = total (newStats xs)"
    using counters_partition[of xs] by (simp add: newStats_def)
  have u: "sum_of_counters (newStats [example_unknown_order]) = 0"
    by (simp add: sum_of_counters_def newStats_def example_unknown_order_def KR_status_defs)
  have t: "total (newStats [example_unknown_order]) = 1"
    by (simp add: newStats_def)
  show ?thesis using p u t
    by (simp add: fetchOrders_success) (simp add: newStats_def)
qed

subsection \<open>Status updates\<close>

text \<open>
  Claim C2 as stated fails: the handler has no in-place patch of the order list, it
  re-fetches the list. When the update succeeds and the re-fetch fails, the list still
  shows the old status of order 1.
\<close>

theorem status_update_not_patched_counterexample:
  "orders (snd (handleStatusUpdate 1 KR_baesongwanryo (Inr ()) (Inl NetworkError) 7 True
             example_dashboard))
   \<noteq> spec_patchStatus 1 KR_baesongwanryo (orders example_dashboard)"
  by (simp add: handleStatusUpdate_def fetchOrders_failure Let_def example_dashboard_def
      spec_patchStatus_def example_order_def KR_status_defs)

text \<open>
  Claim C2, amended. When the backend call of a status update succeeds, the handler makes
  one re-fetch of the whole list: if it succeeds, the snapshot is the fetched list with
  the counts computed from it (every order, updated or not, is as the backend returned
  it); if it fails, the snapshot is left as it was. The status is patched in place only on
  the selected order of the detail modal, when its id is the updated one.
\<close>

theorem status_update_refetches:
  "snapshot (snd (handleStatusUpdate i st (Inr ()) (Inr d) now cb s)) =
     ((case d of Some os \<Rightarrow> os | None \<Rightarrow> []), newStats (case d of Some os \<Rightarrow> os | None \<Rightarrow> [])) \<and>
   snapshot (snd (handleStatusUpdate i st (Inr ()) (Inl e) now cb s)) = snapshot s \<and>
   get_requests (snd (handleStatusUpdate i st (Inr ()) r now cb s)) = get_requests s + 1 \<and>
   selectedOrder (snd (handleStatusUpdate i st (Inr ()) r now cb s)) =
     (case selectedOrder s of
        Some sel \<Rightarrow> if order_id sel = i then Some (sel\<lparr>status := st\<rparr>) else Some sel
      | None \<Rightarrow> None)"
proof -
  have a: "snapshot (snd (handleStatusUpdate i st (Inr ()) (Inr d) now cb s)) =
     ((case d of Some os \<Rightarrow> os | None \<Rightarrow> []), newStats (case d of Some os \<Rightarrow> os | None \<Rightarrow> []))"
    by (simp add: handleStatusUpdate_def fetchOrders_success Let_def snapshot_def
        split: option.splits)
  have b: "snapshot (snd (handleStatusUpdate i st (Inr ()) (Inl e) now cb s)) = snapshot s"
    by (simp add: handleStatusUpdate_def fetchOrders_failure Let_def snapshot_def
        split: option.splits)
  have c: "get_requests (snd (handleStatusUpdate i st (Inr ()) r now cb s)) = get_requests s + 1"
    by (cases r) (simp_all add: handleStatusUpdate_def fetchOrders_failure fetchOrders_success
        Let_def split: option.splits)
  have d: "selectedOrder (snd (handleStatusUpdate i st (Inr ()) r now cb s)) =
     (case selectedOrder s of
        Some sel \<Rightarrow> if order_id sel = i then Some (sel\<lparr>status := st\<rparr>) else Some sel
      | None \<Rightarrow> None)"
    by (cases r) (simp_all add: handleStatusUpdate_def fetchOrders_failure fetchOrders_success
        Let_def split: option.splits)
  show ?thesis using a b c d by simp
qed

text \<open>
  Claim C4 as stated fails: when the backend call is rejected, \<open>handleStatusUpdate\<close>
  still returns normally, and its caller in the modal closes the status dropdown and logs
  nothing, as on success.
\<close>

theorem status_update_error_not_propagated_counterexample:
  "fst (handleStatusUpdate 1 KR_baesongwanryo (Inl NetworkError) (Inr None) 7 True
          example_dashboard) = Inr () \<and>
   snd (handleStatusChange (Some failing_update_handler) example_order KR_baesongwanryo
          (example_dashboard, example_modal)) =
     \<lparr>isUpdatingStatus = False, showStatusDropdown = False, modal_console_error = []\<rparr>"
  by (simp add: handleStatusUpdate_def handleStatusChange_def failing_update_handler_def
      Let_def example_modal_def)

text \<open>
  Claim C4, amended. When the backend call of a status update fails, the handler catches
  the error, logs it with \<open>console.error\<close> and returns normally; the snapshot is left
  unmodified, no re-fetch is made and the notification callback is not called.
\<close>

theorem status_update_failure_logged_only:
  "handleStatusUpdate i st (Inl e) r now cb s =
     (Inr (), s\<lparr>console_error := console_error s @ [(StatusUpdateFailed, e)]\<rparr>) \<and>
   snapshot (snd (handleStatusUpdate i st (Inl e) r now cb s)) = snapshot s \<and>
   get_requests (snd (handleStatusUpdate i st (Inl e) r now cb s)) = get_requests s \<and>
   status_callbacks (snd (handleStatusUpdate i st (Inl e) r now cb s)) = status_callbacks s"
  by (simp add: handleStatusUpdate_def snapshot_def)

subsection \<open>Scheduler\<close>

lemma fetchOrders_get_requests:
  "get_requests (snd (fetchOrders ind r now s)) = get_requests s + 1"
  by (cases r) (simp_all add: fetchOrders_failure fetchOrders_success)

lemma fetchOrders_flags:
  "isAutoRefreshEnabled (snd (fetchOrders ind r now s)) = isAutoRefreshEnabled s"
  "visibilityRef (snd (fetchOrders ind r now s)) = visibilityRef s"
  "intervalRef (snd (fetchOrders ind r now s)) = intervalRef s"
  by (cases r; simp add: fetchOrders_failure fetchOrders_success)+

lemma step_enabled: "isAutoRefreshEnabled (step e s) = isAutoRefreshEnabled s"
  by (cases e)
     (simp_all add: interval_callback_def handleVisibilityChange_def Let_def fetchOrders_flags
        split: option.splits)

lemma run_enabled: "isAutoRefreshEnabled (run es s) = isAutoRefreshEnabled s"
  by (induction es arbitrary: s) (simp_all add: step_enabled)

lemma hidden_tick_noop: "\<not> visibilityRef s \<Longrightarrow> step (Tick r t) s = s"
  by (simp add: interval_callback_def split: option.splits)

lemma hidden_ticks_noop: "\<not> visibilityRef s \<Longrightarrow> run (replicate n (Tick r t)) s = s"
  by (induction n) (simp_all add: hidden_tick_noop del: step.simps)

lemma run_append: "run (es @ es') s = run es' (run es s)"
  by (induction es arbitrary: s) simp_all

lemma hide_event:
  "visibilityRef (step (VisibilityChange True r t) s) = False"
  "get_requests (step (VisibilityChange True r t) s) = get_requests s"
  "isAutoRefreshEnabled (step (VisibilityChange True r t) s) = isAutoRefreshEnabled s"
  by (simp_all add: handleVisibilityChange_def)

lemma show_event:
  "isAutoRefreshEnabled s \<Longrightarrow>
   get_requests (step (VisibilityChange False r t) s) = get_requests s + 1"
  by (simp add: handleVisibilityChange_def Let_def fetchOrders_get_requests)

lemma page_run_dashboard: "dashboard (page_run es p) = run es (dashboard p)"
proof (induction es arbitrary: p)
  case Nil
  show ?case by simp
next
  case (Cons e es)
  have "dashboard (page_step e p) = step e (dashboard p)"
    by (cases e) (simp_all del: step.simps)
  with Cons.IH[of "page_step e p"] show ?case by simp
qed

lemma flag_agrees_step: "flag_agrees p \<Longrightarrow> flag_agrees (page_step e p)"
  by (cases e)
     (simp_all add: flag_agrees_def interval_callback_def handleVisibilityChange_def Let_def
        fetchOrders_flags split: option.splits)

lemma flag_agrees_run: "flag_agrees p \<Longrightarrow> flag_agrees (page_run es p)"
  by (induction es arbitrary: p) (simp_all add: flag_agrees_step del: page_step.simps)

lemma flag_agrees_after_event: "flag_agrees (page_step (VisibilityChange hidden r t) p)"
  by (simp add: flag_agrees_def handleVisibilityChange_def Let_def fetchOrders_flags)

lemma mount_flags:
  "visibilityRef (mount h r now (initial_Dashboard now'))"
  "isAutoRefreshEnabled (mount h r now (initial_Dashboard now'))"
  "intervalRef (mount h r now (initial_Dashboard now')) = Some h"
  "get_requests (mount h r now (initial_Dashboard now')) = 1"
  by (simp_all add: mount_def autoRefresh_effect_def initial_Dashboard_def fetchOrders_flags
        fetchOrders_get_requests)

lemma flag_agrees_visible_mount: "flag_agrees (mount_page False h r now)"
  by (simp add: flag_agrees_def mount_page_def mount_flags)

text \<open>
  What holds of the scheduler. On a page where the component's flag says what the page
  is (a dashboard mounted on a visible page, or any dashboard after its first
  \<open>visibilitychange\<close> event), with auto-refresh enabled and after any trace of interval
  expiries and visibility changes: an expiry while the page is hidden changes nothing; a
  change to hidden starts no refresh; a change to visible starts exactly one refresh; and
  hiding the page, letting the interval expire for any length of time and showing the
  page again makes exactly one request in all.
\<close>

lemma scheduler_when_flag_agrees:
  assumes en: "isAutoRefreshEnabled (dashboard p0)" and fl: "flag_agrees p0"
  shows "(document_hidden (page_run es p0) \<longrightarrow>
            page_step (Tick r t) (page_run es p0) = page_run es p0) \<and>
         get_requests (dashboard (page_step (VisibilityChange True r t) (page_run es p0))) =
           get_requests (dashboard (page_run es p0)) \<and>
         get_requests (dashboard (page_step (VisibilityChange False r t) (page_run es p0))) =
           get_requests (dashboard (page_run es p0)) + 1 \<and>
         get_requests (dashboard (page_run (VisibilityChange True r1 t1 # ticks_during ms r2 t2 @
                            [VisibilityChange False r3 t3]) (page_run es p0))) =
           get_requests (dashboard (page_run es p0)) + 1"
proof -
  let ?p = "page_run es p0"
  let ?s = "dashboard ?p"
  have en': "isAutoRefreshEnabled ?s" using en by (simp add: page_run_dashboard run_enabled)
  have fl': "flag_agrees ?p" by (rule flag_agrees_run[OF fl])
  have a: "document_hidden ?p \<longrightarrow> page_step (Tick r t) ?p = ?p"
  proof
    assume "document_hidden ?p"
    with fl' have "\<not> visibilityRef ?s" by (simp add: flag_agrees_def)
    then have "step (Tick r t) ?s = ?s" by (rule hidden_tick_noop)
    then show "page_step (Tick r t) ?p = ?p" by (simp del: step.simps)
  qed
  have b: "get_requests (dashboard (page_step (VisibilityChange True r t) ?p)) = get_requests ?s"
    by (simp add: hide_event del: step.simps)
  have c: "get_requests (dashboard (page_step (VisibilityChange False r t) ?p)) =
           get_requests ?s + 1"
    by (simp add: show_event[OF en'] del: step.simps)
  let ?h = "step (VisibilityChange True r1 t1) ?s"
  have h1: "\<not> visibilityRef ?h" by (simp add: hide_event del: step.simps)
  have h2: "isAutoRefreshEnabled ?h" using en' by (simp add: hide_event del: step.simps)
  have h3: "run (ticks_during ms r2 t2) ?h = ?h"
    unfolding ticks_during_def by (rule hidden_ticks_noop[OF h1])
  have "get_requests (run (VisibilityChange True r1 t1 # ticks_during ms r2 t2 @
                            [VisibilityChange False r3 t3]) ?s) = get_requests ?s + 1"
    using h3 show_event[OF h2, of r3 t3] by (simp add: run_append hide_event del: step.simps)
  then have d: "get_requests (dashboard (page_run (VisibilityChange True r1 t1 #
                  ticks_during ms r2 t2 @ [VisibilityChange False r3 t3]) ?p)) =
                get_requests ?s + 1"
    by (simp only: page_run_dashboard)
  show ?thesis using a b c d by blast
qed

text \<open>
  An instance: a dashboard mounted on a visible page, hidden for 35 seconds (three
  expiries of the interval) and shown again, has made two requests: the initial load and
  one refresh.
\<close>

lemma scheduler_visible_mount_example:
  "length (ticks_during 35000 (Inr None) 2) = 3 \<and>
   get_requests (dashboard (page_run (VisibilityChange True (Inr None) 1 #
       ticks_during 35000 (Inr None) 2 @ [VisibilityChange False (Inr None) 3])
       visible_mount_page)) = 2"
proof -
  have en: "isAutoRefreshEnabled (dashboard visible_mount_page)"
    by (simp add: visible_mount_page_def mount_page_def mount_flags)
  have fl: "flag_agrees visible_mount_page"
    unfolding visible_mount_page_def by (rule flag_agrees_visible_mount)
  have g: "get_requests (dashboard visible_mount_page) = 1"
    by (simp add: visible_mount_page_def mount_page_def mount_flags)
  have l: "length (ticks_during 35000 (Inr None) 2) = 3"
    by (simp add: ticks_during_def interval_ms_def)
  from scheduler_when_flag_agrees[OF en fl, of "[]" _ _ "Inr None" 1 35000 "Inr None" 2 "Inr None" 3]
  show ?thesis using g l by simp
qed

text \<open>
  Claim C5, the failing input. The dashboard is mounted while the page is hidden. Its
  flag \<open>visibilityRef\<close> starts as \<open>true\<close> and only the \<open>visibilitychange\<close> handler
  writes it, so until the first such event the interval callback takes the page for
  visible: the first expiry of the interval makes a request although the page is
  hidden, and so does each of the three expiries of 35 hidden seconds. The claim, and
  the comment on the interval effect (run only while the page is visible), say that no
  expiry refreshes while the page is hidden.
\<close>

theorem tick_refreshes_on_page_mounted_hidden:
  "document_hidden hidden_mount_page \<and>
   isAutoRefreshEnabled (dashboard hidden_mount_page) \<and>
   get_requests (dashboard hidden_mount_page) = 1 \<and>
   document_hidden (page_step (Tick (Inr None) 10000) hidden_mount_page) \<and>
   get_requests (dashboard (page_step (Tick (Inr None) 10000) hidden_mount_page)) = 2 \<and>
   document_hidden (page_run (ticks_during 35000 (Inr None) 10000) hidden_mount_page) \<and>
   get_requests (dashboard (page_run (ticks_during 35000 (Inr None) 10000) hidden_mount_page)) = 4"
proof -
  let ?s = "dashboard hidden_mount_page"
  have d: "document_hidden hidden_mount_page"
    by (simp add: hidden_mount_page_def mount_page_def)
  have s: "?s = mount 1 (Inr None) 0 (initial_Dashboard 0)"
    by (simp add: hidden_mount_page_def mount_page_def)
  have f: "visibilityRef ?s" "isAutoRefreshEnabled ?s" "intervalRef ?s = Some 1"
    "get_requests ?s = 1"
    unfolding s by (rule mount_flags)+
  have tick: "visibilityRef x \<Longrightarrow> intervalRef x = Some 1 \<Longrightarrow>
      visibilityRef (step (Tick (Inr None) 10000) x) \<and>
      intervalRef (step (Tick (Inr None) 10000) x) = Some 1 \<and>
      get_requests (step (Tick (Inr None) 10000) x) = get_requests x + 1" for x
    by (simp add: interval_callback_def fetchOrders_flags fetchOrders_get_requests)
  let ?t = "Tick (Inr None) 10000"
  have t1: "visibilityRef (step ?t ?s) \<and> intervalRef (step ?t ?s) = Some 1 \<and>
            get_requests (step ?t ?s) = 2"
    using tick[OF f(1) f(3)] f(4) by (simp del: step.simps)
  have t2: "visibilityRef (step ?t (step ?t ?s)) \<and> intervalRef (step ?t (step ?t ?s)) = Some 1 \<and>
            get_requests (step ?t (step ?t ?s)) = 3"
    using tick[of "step ?t ?s"] t1 by (simp del: step.simps)
  have t3: "get_requests (step ?t (step ?t (step ?t ?s))) = 4"
    using tick[of "step ?t (step ?t ?s)"] t2 by (simp del: step.simps)
  have r: "ticks_during 35000 (Inr None) 10000 = [?t, ?t, ?t]"
    by (simp add: ticks_during_def interval_ms_def numeral_3_eq_3)
  have h: "document_hidden (page_step ?t hidden_mount_page)"
    "document_hidden (page_run [?t, ?t, ?t] hidden_mount_page)"
    using d by (simp_all del: step.simps)
  have g2: "get_requests (dashboard (page_step ?t hidden_mount_page)) = 2"
    using t1 by (simp del: step.simps)
  have g4: "get_requests (dashboard (page_run [?t, ?t, ?t] hidden_mount_page)) = 4"
    using t3 by (simp add: page_run_dashboard del: step.simps)
  show ?thesis using d f(2) f(4) h g2 g4 by (simp only: r simp_thms)
qed

subsection \<open>OS notifications\<close>

lemma requestPermission_in_window:
  "notification_in_window w \<Longrightarrow>
   requestPermission w =
     (request_results w (request_calls w),
      w\<lparr>request_calls := request_calls w + 1, permission := request_results w (request_calls w)\<rparr>)"
  by (simp add: requestPermission_def Let_def)

lemma showBrowserNotification_granted:
  "notification_in_window w \<Longrightarrow>
   \<exists>n w'. showBrowserNotification Granted options w = Some (Some n, w') \<and>
          shown w' = shown w @ [n] \<and> n_title n = opt_title options \<and>
          n_body n = opt_body options \<and> request_calls w' = request_calls w"
  by (subst showBrowserNotification.simps) (simp add: Let_def split: option.splits)

lemma showBrowserNotification_denied:
  "showBrowserNotification Denied options w = Some (None, w)"
  by (subst showBrowserNotification.simps) simp

lemma showBrowserNotification_default_not_granted:
  assumes "request_results w (request_calls w) \<noteq> Granted"
  shows "\<exists>w'. showBrowserNotification Default options w = Some (None, w') \<and>
              shown w' = shown w \<and> timers w' = timers w \<and> toasts w' = toasts w \<and>
              request_calls w' = (if notification_in_window w then request_calls w + 1
                                  else request_calls w)"
  using assms
  by (subst showBrowserNotification.simps)
     (simp add: requestPermission_def Let_def)

lemma showBrowserNotification_default_never_returns:
  assumes "notification_in_window w" and "\<forall>k. request_results w k = Granted"
  shows "showBrowserNotification Default options w = None"
proof (rule ccontr)
  assume "showBrowserNotification Default options w \<noteq> None"
  then obtain y where y: "showBrowserNotification Default options w = Some y" by auto
  have "\<not> (Default = Default \<and> notification_in_window w \<and> (\<forall>k. request_results w k = Granted))"
  proof (rule showBrowserNotification.raw_induct
      [where P = "\<lambda>perm options w y.
         \<not> (perm = Default \<and> notification_in_window w \<and> (\<forall>k. request_results w k = Granted))",
       OF _ y])
    fix f :: "NotificationPermission \<Rightarrow> NotificationOptions \<Rightarrow> World
                 \<Rightarrow> (BrowserNotification option \<times> World) option"
      and perm :: NotificationPermission and opts :: NotificationOptions and v :: World
      and r :: "BrowserNotification option \<times> World"
    assume IH: "\<And>perm opts v r. f perm opts v = Some r \<Longrightarrow>
        \<not> (perm = Default \<and> notification_in_window v \<and> (\<forall>k. request_results v k = Granted))"
    assume body: "(if notification_in_window v \<and> perm = Granted then
        (let notification =
               \<lparr>n_title = opt_title opts,
                n_body = opt_body opts,
                n_icon = (case opt_icon opts of
                            Some i \<Rightarrow> if i \<noteq> [] then i else ''/favicon.ico''
                          | None \<Rightarrow> ''/favicon.ico''),
                n_tag = opt_tag opts,
                n_requireInteraction = (case opt_requireInteraction opts of
                                          Some b \<Rightarrow> b | None \<Rightarrow> False)\<rparr>;
             w1 = v\<lparr>shown := shown v @ [notification]\<rparr>;
             w2 = (case opt_timeout opts of
                     Some t \<Rightarrow>
                       if t \<noteq> 0
                       then w1\<lparr>timers := timers w1 @ [(t, CloseNotification (length (shown v)))]\<rparr>
                       else w1
                   | None \<Rightarrow> w1)
         in Some (Some notification, w2))
      else if perm = Default then
        (case requestPermission v of
           (newPermission, w1) \<Rightarrow>
             if newPermission = Granted then f perm opts w1
             else Some (None, w1))
      else Some (None, v)) = Some r"
    show "\<not> (perm = Default \<and> notification_in_window v \<and> (\<forall>k. request_results v k = Granted))"
    proof
      assume g: "perm = Default \<and> notification_in_window v \<and> (\<forall>k. request_results v k = Granted)"
      then have "f Default opts
          (v\<lparr>request_calls := request_calls v + 1, permission := Granted\<rparr>) = Some r"
        using body by (simp add: requestPermission_in_window)
      from IH[OF this] g show False by simp
    qed
  qed
  with assms show False by simp
qed


text \<open>
  Claim C1, the failing input. The permission is \<open>default\<close> and the browser grants every
  request. The request resolves to \<open>granted\<close> and the state cell is updated, but the retry
  is a call of the same callback, which still holds \<open>default\<close>: it asks again, for ever.
  The call never returns and delivers nothing.
\<close>

theorem showBrowserNotification_default_granted_diverges:
  "fst (requestPermission (example_world Granted)) = Granted \<and>
   showBrowserNotification Default options_XY (example_world Granted) = None"
proof -
  have a: "fst (requestPermission (example_world Granted)) = Granted"
    by (simp add: requestPermission_def example_world_def always_def Let_def)
  have b: "showBrowserNotification Default options_XY (example_world Granted) = None"
    by (rule showBrowserNotification_default_never_returns)
       (simp_all add: example_world_def always_def)
  show ?thesis using a b by simp
qed

text \<open>
  The scenario of the claim holds for a call made from a later render: once
  \<open>requestPermission\<close> has resolved to \<open>granted\<close> and the state cell holds it, the
  callback of the next render has \<open>perm = permission\<close> and delivers one notification,
  titled X.
\<close>

lemma showBrowserNotification_after_grant:
  "permission (snd (requestPermission (example_world Granted))) = Granted \<and>
   (\<exists>n w'. showBrowserNotification
              (permission (snd (requestPermission (example_world Granted)))) options_XY
              (snd (requestPermission (example_world Granted))) = Some (Some n, w') \<and>
            shown w' = [n] \<and> n_title n = ''X'')"
proof -
  let ?w = "snd (requestPermission (example_world Granted))"
  have p: "permission ?w = Granted" and i: "notification_in_window ?w"
    and s: "shown ?w = []"
    by (simp_all add: requestPermission_def example_world_def always_def Let_def)
  from showBrowserNotification_granted[OF i, of options_XY] s p show ?thesis
    by (auto simp add: options_XY_def)
qed

subsection \<open>Toasts\<close>

lemma showToast_result:
  "showToast toast now rnd w =
     (digits10 now @ substr 2 9 rnd,
      (let t' = (case spec_timeout toast of
                   Some t \<Rightarrow> if t \<noteq> 0 then t else 5000 | None \<Rightarrow> 5000);
           w1 = w\<lparr>toasts := toasts w @
                  [\<lparr>toast_id = digits10 now @ substr 2 9 rnd, toast_type = spec_type toast,
                    toast_title = spec_title toast, toast_message = spec_message toast,
                    toast_timeout = Some t'\<rparr>]\<rparr>
       in if t' > 0
          then w1\<lparr>timers := timers w @ [(t', RemoveToast (digits10 now @ substr 2 9 rnd))]\<rparr>
          else w1))"
  by (simp add: showToast_def Let_def split: option.splits)

text \<open>
  Claim C3, the failing input. A toast requested with timeout exactly 0 is stored with
  the timeout 5000: \<open>toast.timeout || 5000\<close> takes the 0 for a missing value. The guard
  \<open>> 0\<close> that follows then schedules the removal, and its expiry removes the toast. The
  claim says that such a toast stays until it is removed explicitly.
\<close>

theorem showToast_zero_timeout_schedules_removal:
  "timers (example_world Granted) = [] \<and>
   fst (showToast (example_toast (Some 0)) 1000 ''0.abc'' (example_world Granted)) = ''1000abc'' \<and>
   map toast_timeout
     (toasts (snd (showToast (example_toast (Some 0)) 1000 ''0.abc'' (example_world Granted)))) =
     [Some 5000] \<and>
   timers (snd (showToast (example_toast (Some 0)) 1000 ''0.abc'' (example_world Granted))) =
     [(5000, RemoveToast ''1000abc'')] \<and>
   toasts (fire (RemoveToast ''1000abc'')
     (snd (showToast (example_toast (Some 0)) 1000 ''0.abc'' (example_world Granted)))) = []"
proof -
  have d: "digits10 1000 = ''1000''" by code_simp
  show ?thesis
    by (simp add: showToast_result d substr_def example_toast_def example_world_def Let_def
        removeToast_def)
qed

text \<open>
  The rest of the claim on the code. A call with a negative timeout stores the toast
  with that timeout and schedules nothing; a call with no timeout stores the toast with
  5000 and schedules the removal of its id after 5000 ms. A stored toast is still there
  after the removal of any other id.
\<close>

lemma showToast_negative_timeout:
  "spec_timeout toast = Some t \<Longrightarrow> t < 0 \<Longrightarrow>
     timers (snd (showToast toast now rnd w)) = timers w \<and>
     map toast_id (toasts (snd (showToast toast now rnd w))) =
       map toast_id (toasts w) @ [fst (showToast toast now rnd w)] \<and>
     map toast_timeout (toasts (snd (showToast toast now rnd w))) =
       map toast_timeout (toasts w) @ [Some t]"
  by (simp add: showToast_result Let_def)

lemma showToast_no_timeout:
  "spec_timeout toast = None \<Longrightarrow>
     timers (snd (showToast toast now rnd w)) =
       timers w @ [(5000, RemoveToast (fst (showToast toast now rnd w)))] \<and>
     map toast_id (toasts (snd (showToast toast now rnd w))) =
       map toast_id (toasts w) @ [fst (showToast toast now rnd w)] \<and>
     map toast_timeout (toasts (snd (showToast toast now rnd w))) =
       map toast_timeout (toasts w) @ [Some 5000]"
  by (simp add: showToast_result Let_def)

lemma removeToast_other_id:
  "toast \<in> set (toasts w) \<Longrightarrow> toast_id toast \<noteq> i \<Longrightarrow> toast \<in> set (toasts (removeToast i w))"
  by (simp add: removeToast_def)

subsection \<open>Toast ids\<close>

lemma digits10_nonempty: "digits10 n \<noteq> []"
  by (subst digits10.simps) simp

lemma digits10_small: "n < 10 \<Longrightarrow> digits10 n = [char_of (48 + n)]"
  by (subst digits10.simps) simp

lemma digits10_large:
  "\<not> n < 10 \<Longrightarrow> digits10 n = digits10 (n div 10) @ [char_of (48 + n mod 10)]"
  by (subst digits10.simps) simp

lemma digit_char_inj:
  assumes "m < 10" "n < 10" "char_of (48 + m) = (char_of (48 + n) :: char)"
  shows "m = (n::nat)"
proof -
  from assms(3) have "(48 + m) mod 256 = (48 + n) mod 256"
    by (simp add: char_of_eq_iff take_bit_eq_mod)
  with assms(1,2) show ?thesis by simp
qed

lemma digits10_inj: "digits10 m = digits10 n \<Longrightarrow> m = n"
proof (induction m arbitrary: n rule: digits10.induct)
  case (1 m)
  show ?case
  proof (cases "m < 10")
    case True
    note m = this
    show ?thesis
    proof (cases "n < 10")
      case True
      with m "1.prems" show ?thesis
        by (simp add: digits10_small digit_char_inj)
    next
      case False
      with m "1.prems" digits10_nonempty[of "n div 10"] show ?thesis
        by (simp add: digits10_small digits10_large)
    qed
  next
    case False
    note m = this
    show ?thesis
    proof (cases "n < 10")
      case True
      with m "1.prems" digits10_nonempty[of "m div 10"] show ?thesis
        by (simp add: digits10_small digits10_large)
    next
      case False
      with m "1.prems" have e: "digits10 (m div 10) = digits10 (n div 10)"
        and c: "char_of (48 + m mod 10) = (char_of (48 + n mod 10) :: char)"
        by (simp_all add: digits10_large)
      from "1.IH"[OF m e] have "m div 10 = n div 10" .
      moreover from c have "m mod 10 = n mod 10"
        by (intro digit_char_inj) simp_all
      ultimately show ?thesis by (metis div_mult_mod_eq)
    qed
  qed
qed

text \<open>
  Claim C9 as stated fails: the id is the timestamp followed by characters of a random
  number, and two calls in the same millisecond that draw the same random number get the
  same id.
\<close>

theorem toast_ids_collide_counterexample:
  "map toast_id
     (toasts (snd (showToast (example_toast None) 1000 ''0.abc''
                    (snd (showToast (example_toast None) 1000 ''0.abc'' (example_world Granted)))))) =
     [''1000abc'', ''1000abc'']"
proof -
  have d: "digits10 1000 = ''1000''" by code_simp
  show ?thesis
    by (simp add: showToast_result d substr_def example_toast_def example_world_def Let_def)
qed

text \<open>
  Claim C9, amended. For two calls of \<open>showToast\<close> whose timestamps have the same number
  of digits, the ids are equal exactly when the timestamps are equal and the random
  suffixes (characters 2 to 10 of the random number in base 36) are equal; so the ids are
  distinct whenever the timestamps or the suffixes differ.
\<close>

theorem toast_ids_distinct_when_draws_differ:
  assumes "length (digits10 n1) = length (digits10 n2)"
  shows "(fst (showToast t1 n1 r1 w1) = fst (showToast t2 n2 r2 w2)) =
         (n1 = n2 \<and> substr 2 9 r1 = substr 2 9 r2)"
  using assms by (auto simp add: showToast_result dest: digits10_inj)

theorem toast_ids_distinct_when_draws_differ_witness:
  "length (digits10 1000) = length (digits10 1001) \<and>
   fst (showToast (example_toast None) 1000 ''0.abc'' (example_world Granted)) \<noteq>
   fst (showToast (example_toast None) 1001 ''0.abc'' (example_world Granted))"
proof -
  have l: "length (digits10 1000) = length (digits10 1001)" by code_simp
  from toast_ids_distinct_when_draws_differ[OF l, of "example_toast None" "''0.abc''"
      "example_world Granted" "example_toast None" "''0.abc''" "example_world Granted"] l
  show ?thesis by simp
qed

subsection \<open>The status table\<close>

lemma statusInfo_unknown:
  "map_of statusMessages st = None \<Longrightarrow> st \<notin> set Object_prototype_keys \<Longrightarrow>
   statusInfo st = default_entry"
  by (simp add: statusInfo_def statusMessages_get_def)

lemma statusInfo_unknown_value:
  "statusInfo ''unknown-value'' = default_entry \<and>
   si_title default_entry = Some KR_title_default \<and>
   si_emoji default_entry = Some emoji_clipboard \<and> si_color default_entry = Some Info"
  by (simp add: statusInfo_def statusMessages_get_def statusMessages_def Object_prototype_keys_def
      default_entry_def entry_def KR_jeopsuwanryo_def KR_baesongjunbi_def KR_baesongjung_def
      KR_baesongwanryo_def KR_chwiso_def KR_bansong_def)

text \<open>
  Claim C8, the failing input. The status \<open>constructor\<close> is not a key of the table, but
  the lookup finds the property that every object inherits; the value is truthy, so the
  default entry is not used. Its \<open>title\<close>, \<open>emoji\<close> and \<open>color\<close> are \<open>undefined\<close>: the OS
  notification is titled "undefined undefined" and the toast has no title and no type.
  Nothing throws.
\<close>

theorem notifyOrderStatusChange_inherited_key:
  "map_of statusMessages ''constructor'' = None \<and>
   statusInfo ''constructor'' \<noteq> default_entry \<and>
   opt_title (status_notification_options (example_orderInfo ''constructor'')) =
     ''undefined undefined'' \<and>
   spec_title (status_toast (example_orderInfo ''constructor'')) = None \<and>
   spec_type (status_toast (example_orderInfo ''constructor'')) = None \<and>
   (\<exists>w'. notifyOrderStatusChange Denied (example_orderInfo ''constructor'') 1000 ''0.abc''
            (example_world Denied) = Some w' \<and>
          map toast_title (toasts w') = [None] \<and> map toast_type (toasts w') = [None])"
proof -
  have k: "map_of statusMessages ''constructor'' = None"
    by (simp add: statusMessages_def KR_jeopsuwanryo_def KR_baesongjunbi_def KR_baesongjung_def
      KR_baesongwanryo_def KR_chwiso_def KR_bansong_def)
  have i: "statusInfo ''constructor'' = inherited_value"
    by (simp add: statusInfo_def statusMessages_get_def k Object_prototype_keys_def)
  have n: "inherited_value \<noteq> default_entry"
    by (simp add: inherited_value_def default_entry_def entry_def)
  have o: "opt_title (status_notification_options (example_orderInfo ''constructor'')) =
     ''undefined undefined''"
    by (simp add: status_notification_options_def example_orderInfo_def i Let_def
        inherited_value_def template_def)
  have t: "spec_title (status_toast (example_orderInfo ''constructor'')) = None"
    "spec_type (status_toast (example_orderInfo ''constructor'')) = None"
    by (simp_all add: status_toast_def example_orderInfo_def i Let_def inherited_value_def)
  have r: "notifyOrderStatusChange Denied (example_orderInfo ''constructor'') 1000 ''0.abc''
            (example_world Denied) =
           Some (snd (showToast (status_toast (example_orderInfo ''constructor'')) 1000 ''0.abc''
                   (example_world Denied)))"
    by (simp add: notifyOrderStatusChange_def showBrowserNotification_denied)
  have e: "toasts (example_world Denied) = []" by (simp add: example_world_def)
  have m: "map toast_title (toasts (snd (showToast (status_toast (example_orderInfo ''constructor''))
              1000 ''0.abc'' (example_world Denied)))) = [None]"
    "map toast_type (toasts (snd (showToast (status_toast (example_orderInfo ''constructor''))
              1000 ''0.abc'' (example_world Denied)))) = [None]"
    by (simp_all add: showToast_result Let_def t e)
  show ?thesis using k i n o t r m by simp
qed

end
